theory Spec2Isabelle
  imports Main
begin

section \<open>Constants of app.py\<close>

definition BLOCK_SIZE :: int where
  "BLOCK_SIZE = 2 ^ 4"

definition JUMP_SIZE :: int where
  "JUMP_SIZE = 10"

text \<open>The table \<^verbatim>\<open>TIMING\<close>, in milliseconds.\<close>

definition TIMING_invincibility :: nat where
  "TIMING_invincibility = 10000"

definition TIMING_switch :: nat where
  "TIMING_switch = 1000"

section \<open>Entities\<close>

text \<open>
  Every entity of the game is a Python object. Its identity is \<open>ref\<close>; \<open>get_id\<close> is the
  string \<^verbatim>\<open>get_id()\<close> returns, \<open>get_position\<close> the pair \<^verbatim>\<open>get_position()\<close> returns,
  \<open>switch_flag\<close> the attribute \<^verbatim>\<open>_switch\<close> of the classes Switch and Switch_Pressed, and
  \<open>get_tempo\<close> the tempo of a mob.
\<close>

datatype category = PlayerCat | BlockCat | MobCat | ItemCat

record thing =
  ref :: nat
  category :: category
  get_id :: string
  get_position :: "int \<times> int"
  switch_flag :: bool
  get_tempo :: int

text \<open>The constructors \<^verbatim>\<open>Block(block_id)\<close> and \<^verbatim>\<open>Switch_Pressed()\<close>; \<open>n\<close> is the identity of
  the new object.\<close>

definition Block :: "nat \<Rightarrow> string \<Rightarrow> thing" where
  "Block n block_id =
     \<lparr>ref = n, category = BlockCat, get_id = block_id, get_position = (0, 0),
      switch_flag = False, get_tempo = 0\<rparr>"

definition Switch_Pressed :: "nat \<Rightarrow> thing" where
  "Switch_Pressed n =
     \<lparr>ref = n, category = BlockCat, get_id = ''switch_pressed'', get_position = (0, 0),
      switch_flag = False, get_tempo = 0\<rparr>"

text \<open>The result of \<^verbatim>\<open>get_collision_direction\<close>: one of the strings "L", "R", "A", "B",
  or None.\<close>

datatype direction = DirL | DirR | DirA | DirB

subsection \<open>The player\<close>

record player =
  player_ref :: nat
  get_health :: int
  get_max_health :: int
  get_velocity :: "int \<times> int"
  is_jumping :: bool
  get_score :: int

text \<open>Modelled from the spec: the methods of the class Player (player.py is not part of
  the sources): health is clamped to \<open>[0, max_health]\<close>, and the player is dead when the
  health is at most 0.\<close>

definition change_health :: "int \<Rightarrow> player \<Rightarrow> player" where
  "change_health c p =
     p\<lparr>get_health := max 0 (min (get_max_health p) (get_health p + c))\<rparr>"

definition is_dead :: "player \<Rightarrow> bool" where
  "is_dead p = (get_health p \<le> 0)"

definition change_score :: "int \<Rightarrow> player \<Rightarrow> player" where
  "change_score c p = p\<lparr>get_score := get_score p + c\<rparr>"

definition set_velocity :: "int \<times> int \<Rightarrow> player \<Rightarrow> player" where
  "set_velocity v p = p\<lparr>get_velocity := v\<rparr>"

definition set_jumping :: "bool \<Rightarrow> player \<Rightarrow> player" where
  "set_jumping b p = p\<lparr>is_jumping := b\<rparr>"

subsection \<open>The world\<close>

record world =
  things :: "thing list"

text \<open>Modelled from the spec: the methods of the class World (game/world.py is not part of
  the sources). Adding places the object at the given coordinates; removing is by object
  identity and is a no-op for an object that is not in the world.\<close>

definition place :: "thing \<Rightarrow> int \<Rightarrow> int \<Rightarrow> thing" where
  "place t x y = t\<lparr>get_position := (x, y)\<rparr>"

definition add_thing :: "world \<Rightarrow> thing \<Rightarrow> int \<Rightarrow> int \<Rightarrow> world" where
  "add_thing w t x y = w\<lparr>things := things w @ [place t x y]\<rparr>"

definition remove_thing :: "world \<Rightarrow> thing \<Rightarrow> world" where
  "remove_thing w t = w\<lparr>things := filter (\<lambda>u. ref u \<noteq> ref t) (things w)\<rparr>"

definition add_block :: "world \<Rightarrow> thing \<Rightarrow> int \<Rightarrow> int \<Rightarrow> world" where
  "add_block = add_thing"

definition remove_block :: "world \<Rightarrow> thing \<Rightarrow> world" where
  "remove_block = remove_thing"

definition remove_mob :: "world \<Rightarrow> thing \<Rightarrow> world" where
  "remove_mob = remove_thing"

definition remove_item :: "world \<Rightarrow> thing \<Rightarrow> world" where
  "remove_item = remove_thing"

definition player_thing :: "player \<Rightarrow> thing" where
  "player_thing p =
     \<lparr>ref = player_ref p, category = PlayerCat, get_id = ''player'', get_position = (0, 0),
      switch_flag = False, get_tempo = 0\<rparr>"

definition add_player :: "world \<Rightarrow> player \<Rightarrow> int \<Rightarrow> int \<Rightarrow> world" where
  "add_player w p x y = add_thing w (player_thing p) x y"

text \<open>\<^verbatim>\<open>mob.set_tempo(-mob.get_tempo())\<close> on the object in the world.\<close>

definition reverse_tempo :: "world \<Rightarrow> thing \<Rightarrow> world" where
  "reverse_tempo w m =
     w\<lparr>things := map (\<lambda>u. if ref u = ref m then u\<lparr>get_tempo := - get_tempo u\<rparr> else u) (things w)\<rparr>"

section \<open>External collaborators\<close>

text \<open>
  What app.py calls and does not define: the level loader \<^verbatim>\<open>load_world\<close>, the spatial
  query behind \<^verbatim>\<open>World.get_things_in_range\<close> (\<open>within t x y r\<close>: the physics engine finds
  \<open>t\<close> within distance \<open>r\<close> of the point \<open>(x, y)\<close>), the \<^verbatim>\<open>on_hit\<close> callbacks of blocks and
  mobs, which receive the world and the player, \<^verbatim>\<open>DroppedItem.collect\<close>, and the answer
  the user gives to the dialog of \<^verbatim>\<open>death\<close>.
\<close>

record env =
  load_world :: "string \<Rightarrow> world"
  within :: "thing \<Rightarrow> int \<Rightarrow> int \<Rightarrow> int \<Rightarrow> bool"
  block_on_hit :: "thing \<Rightarrow> world \<times> player \<Rightarrow> world \<times> player"
  mob_on_hit :: "thing \<Rightarrow> world \<times> player \<Rightarrow> world \<times> player"
  collect :: "thing \<Rightarrow> player \<Rightarrow> player"
  askquestion_yes :: bool

text \<open>Modelled from the spec: \<^verbatim>\<open>World.get_things_in_range\<close>, the things of the world within
  radius \<open>r\<close> of the point \<open>(x, y)\<close>.\<close>

definition get_things_in_range :: "env \<Rightarrow> world \<Rightarrow> int \<Rightarrow> int \<Rightarrow> int \<Rightarrow> thing list" where
  "get_things_in_range e w x y r = filter (\<lambda>t. within e t x y r) (things w)"

section \<open>The application state\<close>

text \<open>The callbacks handed to \<^verbatim>\<open>self._master.after\<close>, with their arguments.\<close>

datatype callback =
    Remove_invincibility
  | Unpress_switch thing int int thing "(int \<times> int) list"

datatype error = KeyError

text \<open>
  The attributes of MarioApp. \<open>app_switch\<close> is \<^verbatim>\<open>self._switch\<close>, \<open>health\<close> is \<^verbatim>\<open>self.health\<close>
  of the configuration file. \<open>now\<close> is the clock of the event loop in milliseconds and
  \<open>pending\<close> the callbacks scheduled with \<^verbatim>\<open>after\<close>, with their deadlines, in the order they
  were scheduled. \<open>next_ref\<close> is the identity the next new object gets. \<open>dialogs\<close> are the
  titles of the message boxes shown so far, \<open>destroyed\<close> says that \<^verbatim>\<open>self._master.destroy()\<close>
  was called.
\<close>

record app =
  world :: world
  player :: player
  invincibility :: bool
  on_tunnel :: bool
  app_switch :: bool
  config :: "string \<rightharpoonup> string list"
  current_level :: string
  x_start :: int
  y_start :: int
  health :: int
  now :: nat
  pending :: "(nat \<times> callback) list"
  next_ref :: nat
  dialogs :: "string list"
  destroyed :: bool

text \<open>\<^verbatim>\<open>self._master.after(ms, callback, *args)\<close>.\<close>

definition after :: "nat \<Rightarrow> callback \<Rightarrow> app \<Rightarrow> app" where
  "after ms cb s = s\<lparr>pending := pending s @ [(now s + ms, cb)]\<rparr>"

subsection \<open>Invincibility\<close>

definition set_invincibility :: "app \<Rightarrow> app" where
  "set_invincibility s = after TIMING_invincibility Remove_invincibility (s\<lparr>invincibility := True\<rparr>)"

definition remove_invincibility :: "app \<Rightarrow> app" where
  "remove_invincibility s = s\<lparr>invincibility := False\<rparr>"

definition set_on_tunnel :: "bool \<Rightarrow> app \<Rightarrow> app" where
  "set_on_tunnel is_on s = s\<lparr>on_tunnel := is_on\<rparr>"

subsection \<open>Levels\<close>

text \<open>\<^verbatim>\<open>str.startswith\<close>, \<^verbatim>\<open>i.split(":")[-1]\<close> and \<^verbatim>\<open>.strip(" ")\<close>.\<close>

definition startswith :: "string \<Rightarrow> string \<Rightarrow> bool" where
  "startswith i p = (take (length p) i = p)"

definition last_field :: "string \<Rightarrow> string" where
  "last_field i = rev (takeWhile (\<lambda>c. c \<noteq> CHR '':'') (rev i))"

definition strip_spaces :: "string \<Rightarrow> string" where
  "strip_spaces i =
     rev (dropWhile (\<lambda>c. c = CHR '' '') (rev (dropWhile (\<lambda>c. c = CHR '' '') i)))"

definition game_end :: "app \<Rightarrow> app" where
  "game_end s = s\<lparr>dialogs := dialogs s @ [''Information''], destroyed := True\<rparr>"

definition reset_world :: "env \<Rightarrow> string \<Rightarrow> app \<Rightarrow> app" where
  "reset_world e new_level s =
     (if new_level = ''END'' then game_end s
      else s\<lparr>world := add_player (load_world e new_level) (player s) (x_start s) (y_start s)\<rparr>)"

definition goto_next_level :: "env \<Rightarrow> string \<Rightarrow> app \<Rightarrow> error + app" where
  "goto_next_level e type s =
     (case config s (''=='' @ current_level s @ ''=='') of
        None \<Rightarrow> Inl KeyError
      | Some lines \<Rightarrow>
          Inr (fold (\<lambda>i s'. if startswith i type
                             then reset_world e (strip_spaces (last_field i)) s' else s')
                 lines s))"

definition menu_reset_level :: "env \<Rightarrow> app \<Rightarrow> app" where
  "menu_reset_level e s =
     (let p1 = change_health (health s) (player s);
          p2 = change_score (- get_score p1) p1
      in reset_world e (current_level s) (s\<lparr>player := p2\<rparr>))"

definition menu_exit :: "app \<Rightarrow> app" where
  "menu_exit s = s\<lparr>destroyed := True\<rparr>"

definition death :: "env \<Rightarrow> app \<Rightarrow> app" where
  "death e s =
     (let s1 = s\<lparr>dialogs := dialogs s @ [''Dead!'']\<rparr>
      in if askquestion_yes e then menu_reset_level e s1 else menu_exit s1)"

subsection \<open>The switch timer\<close>

text \<open>The loop of \<^verbatim>\<open>unpress_switch\<close>: one new brick for every recorded position.\<close>

fun restore_bricks :: "(int \<times> int) list \<Rightarrow> app \<Rightarrow> app" where
  "restore_bricks [] s = s"
| "restore_bricks (i # rest) s =
     restore_bricks rest
       (s\<lparr>world := add_block (world s) (Block (next_ref s) ''brick'') (fst i) (snd i),
          next_ref := Suc (next_ref s)\<rparr>)"

definition unpress_switch ::
  "thing \<Rightarrow> int \<Rightarrow> int \<Rightarrow> thing \<Rightarrow> (int \<times> int) list \<Rightarrow> app \<Rightarrow> app" where
  "unpress_switch block x y pressed_switch positions s =
     (let block' = block\<lparr>switch_flag := False\<rparr>;
          s1 = restore_bricks positions s;
          s2 = s1\<lparr>world := remove_block (world s1) pressed_switch\<rparr>
      in s2\<lparr>world := add_block (world s2) block' x y\<rparr>)"

subsection \<open>The event loop\<close>

text \<open>Modelled from the spec: the timed action scheduler (the event loop of the GUI toolkit).
  When the clock reaches \<open>t\<close>, every pending callback whose deadline has elapsed is fired
  once and discarded, in the order of the deadlines and, for equal deadlines, in the order of
  scheduling.\<close>

fun fire :: "callback \<Rightarrow> app \<Rightarrow> app" where
  "fire Remove_invincibility s = remove_invincibility s"
| "fire (Unpress_switch block x y pressed_switch positions) s =
     unpress_switch block x y pressed_switch positions s"

definition due :: "nat \<Rightarrow> app \<Rightarrow> callback list" where
  "due t s = map snd (sort_key fst (filter (\<lambda>tm. fst tm \<le> t) (pending s)))"

definition advance :: "nat \<Rightarrow> app \<Rightarrow> app" where
  "advance t s =
     fold fire (due t s)
       (s\<lparr>pending := filter (\<lambda>tm. t < fst tm) (pending s), now := max (now s) t\<rparr>)"

section \<open>Collision handlers\<close>

definition jump :: "app \<Rightarrow> app" where
  "jump s =
     (if \<not> is_jumping (player s)
      then s\<lparr>player := set_velocity (fst (get_velocity (player s)), - BLOCK_SIZE * JUMP_SIZE) (player s)\<rparr>
      else s)"

text \<open>\<^verbatim>\<open>_handle_mob_collide_block\<close>; \<open>d\<close> is \<^verbatim>\<open>get_collision_direction(block, mob)\<close>.\<close>

definition handle_mob_collide_block ::
  "direction option \<Rightarrow> thing \<Rightarrow> thing \<Rightarrow> app \<Rightarrow> bool \<times> app" where
  "handle_mob_collide_block d mob block s =
     (if get_id mob = ''fireball'' then
        (let s1 = (if get_id block = ''brick''
                   then s\<lparr>world := remove_block (world s) block\<rparr> else s)
         in (True, s1\<lparr>world := remove_mob (world s1) mob\<rparr>))
      else if get_id mob = ''mushroom'' then
        (True, if d = Some DirR \<or> d = Some DirL
               then s\<lparr>world := reverse_tempo (world s) mob\<rparr> else s)
      else if get_id block = ''switch_pressed'' then (False, s)
      else (True, s))"

text \<open>\<^verbatim>\<open>_handle_player_collide_item\<close>.\<close>

definition handle_player_collide_item :: "env \<Rightarrow> thing \<Rightarrow> app \<Rightarrow> bool \<times> app" where
  "handle_player_collide_item e dropped_item s =
     (let s1 = (if get_id dropped_item = ''star'' then set_invincibility s else s);
          s2 = s1\<lparr>player := collect e dropped_item (player s1)\<rparr>
      in (False, s2\<lparr>world := remove_item (world s2) dropped_item\<rparr>))"

text \<open>The loop over the things in range of a switch: every thing other than the player
  whose id is "brick" is removed, and its position recorded.\<close>

fun clear_bricks ::
  "player \<Rightarrow> thing list \<Rightarrow> world \<times> (int \<times> int) list \<Rightarrow> world \<times> (int \<times> int) list" where
  "clear_bricks p [] acc = acc"
| "clear_bricks p (i # rest) (w, positions) =
     (if ref i = player_ref p then clear_bricks p rest (w, positions)
      else if get_id i = ''brick''
        then clear_bricks p rest (remove_block w i, positions @ [get_position i])
      else clear_bricks p rest (w, positions))"

text \<open>The body of the branch "landed on top of an unpressed switch" of
  \<^verbatim>\<open>_handle_player_collide_block\<close>.\<close>

definition press_switch :: "env \<Rightarrow> thing \<Rightarrow> app \<Rightarrow> app" where
  "press_switch e block s =
     (let s1 = s\<lparr>app_switch := True\<rparr>;
          x = fst (get_position block);
          y = snd (get_position block);
          remove = get_things_in_range e (world s1) x y (BLOCK_SIZE * 10);
          cleared = clear_bricks (player s1) remove (world s1, []);
          positions = snd cleared;
          block' = block\<lparr>switch_flag := True\<rparr>;
          w2 = remove_block (fst cleared) block';
          pressed_switch = place (Switch_Pressed (next_ref s1)) x y;
          w3 = add_block w2 pressed_switch x y;
          s2 = s1\<lparr>world := w3, next_ref := Suc (next_ref s1)\<rparr>
      in after TIMING_switch (Unpress_switch block' x y pressed_switch positions) s2)"

text \<open>The first statements of \<^verbatim>\<open>_handle_player_collide_block\<close>: landing on top of the block
  clears the jumping flag, then the block's own \<^verbatim>\<open>on_hit\<close> runs.\<close>

definition hit_block :: "env \<Rightarrow> direction option \<Rightarrow> thing \<Rightarrow> app \<Rightarrow> app" where
  "hit_block e d block s =
     (let s0 = (if d = Some DirB then s\<lparr>player := set_jumping False (player s)\<rparr> else s);
          wp = block_on_hit e block (world s0, player s0)
      in s0\<lparr>world := fst wp, player := snd wp\<rparr>)"

text \<open>\<^verbatim>\<open>_handle_player_collide_block\<close>; \<open>d\<close> is \<^verbatim>\<open>get_collision_direction(block, player)\<close>,
  which is "B" when the player landed on top of the block.\<close>

definition handle_player_collide_block ::
  "env \<Rightarrow> direction option \<Rightarrow> thing \<Rightarrow> app \<Rightarrow> error + bool \<times> app" where
  "handle_player_collide_block e d block s =
     (let s1 = hit_block e d block s;
          s2 = (if get_id block = ''bounce_block'' then jump s1 else s1)
      in if get_id block = ''tunnel'' \<and> d = Some DirB then Inr (True, set_on_tunnel True s2)
         else if get_id block = ''flag'' then
           (if d = Some DirB then
              (case goto_next_level e ''goal'' s2 of
                 Inl err \<Rightarrow> Inl err
               | Inr s3 \<Rightarrow>
                   Inr (True, s3\<lparr>player :=
                     change_health (get_max_health (player s3) - get_health (player s3)) (player s3)\<rparr>))
            else
              (case goto_next_level e ''goal'' s2 of
                 Inl err \<Rightarrow> Inl err
               | Inr s3 \<Rightarrow> Inr (True, s3)))
         else if get_id block = ''switch_pressed'' then Inr (False, s2)
         else if get_id block = ''switch'' then
           (if \<not> switch_flag block then
              (if d = Some DirB then Inr (True, press_switch e block s2) else Inr (True, s2))
            else Inr (False, s2))
         else Inr (True, s2))"

text \<open>\<^verbatim>\<open>_handle_player_collide_mob\<close>; \<open>d\<close> is \<^verbatim>\<open>get_collision_direction(mob, player)\<close>, which
  is "R" when the player hit the right side of the mob, "L" the left side and "B" the top.\<close>

definition handle_player_collide_mob ::
  "env \<Rightarrow> direction option \<Rightarrow> thing \<Rightarrow> app \<Rightarrow> bool \<times> app" where
  "handle_player_collide_mob e d mob s =
     (let s1 =
        (if invincibility s then s\<lparr>world := remove_mob (world s) mob\<rparr>
         else if get_id mob = ''mushroom'' then
           (if d = Some DirR then
              (let p = change_health (- 1) (player s)
               in s\<lparr>player := set_velocity (- 100, snd (get_velocity p)) p\<rparr>)
            else if d = Some DirL then
              (let p = change_health (- 1) (player s)
               in s\<lparr>player := set_velocity (100, snd (get_velocity p)) p\<rparr>)
            else if d = Some DirB then
              (let p = set_velocity (fst (get_velocity (player s)), - BLOCK_SIZE * 7) (player s)
               in s\<lparr>player := set_jumping True p, world := remove_mob (world s) mob\<rparr>)
            else s)
         else
           (let wp = mob_on_hit e mob (world s, player s)
            in s\<lparr>world := fst wp, player := snd wp\<rparr>))
      in (True, if is_dead (player s1) then death e s1 else s1))"

text \<open>\<^verbatim>\<open>_handle_mob_collide_item\<close>, \<^verbatim>\<open>_handle_mob_collide_mob\<close> and
  \<^verbatim>\<open>_handle_player_separate_block\<close>.\<close>

definition handle_mob_collide_item :: "thing \<Rightarrow> thing \<Rightarrow> app \<Rightarrow> bool \<times> app" where
  "handle_mob_collide_item mob block s = (False, s)"

definition handle_mob_collide_mob :: "thing \<Rightarrow> thing \<Rightarrow> app \<Rightarrow> bool \<times> app" where
  "handle_mob_collide_mob mob1 mob2 s =
     (let s1 = (if get_id mob1 = ''fireball'' \<or> get_id mob2 = ''fireball''
                then s\<lparr>world := remove_mob (remove_mob (world s) mob1) mob2\<rparr> else s);
          s2 = (if get_id mob1 = ''mushroom'' \<and> get_id mob2 = ''mushroom''
                then s1\<lparr>world := reverse_tempo (reverse_tempo (world s1) mob1) mob2\<rparr> else s1)
      in (False, s2))"

definition handle_player_separate_block :: "thing \<Rightarrow> app \<Rightarrow> bool \<times> app" where
  "handle_player_separate_block block s =
     (let s1 = s\<lparr>player := set_jumping True (player s)\<rparr>
      in (True, if get_id block = ''tunnel'' then set_on_tunnel False s1 else s1))"

text \<open>The bricks a switch clears: the things in range of the switch, other than the player,
  whose id is "brick". The radius is ten blocks.\<close>

definition bricks_in_range :: "env \<Rightarrow> app \<Rightarrow> thing \<Rightarrow> thing list" where
  "bricks_in_range e s block =
     filter (\<lambda>i. ref i \<noteq> player_ref (player s) \<and> get_id i = ''brick'')
       (get_things_in_range e (world s) (fst (get_position block)) (snd (get_position block))
          (BLOCK_SIZE * 10))"

text \<open>The bricks a fired switch timer creates: one new object, with the next free identity,
  for every recorded position.\<close>

fun new_bricks :: "nat \<Rightarrow> (int \<times> int) list \<Rightarrow> thing list" where
  "new_bricks n [] = []"
| "new_bricks n (i # rest) = place (Block n ''brick'') (fst i) (snd i) # new_bricks (Suc n) rest"

text \<open>The levels a lookup for a goal kind loads: the last field, stripped, of every line of
  the section that starts with the kind.\<close>

definition next_levels :: "string \<Rightarrow> string list \<Rightarrow> string list" where
  "next_levels type lines =
     map (\<lambda>i. strip_spaces (last_field i)) (filter (\<lambda>i. startswith i type) lines)"

text \<open>The identities of the pressed switches that callbacks will remove.\<close>

fun placeholder :: "callback \<Rightarrow> nat list" where
  "placeholder Remove_invincibility = []"
| "placeholder (Unpress_switch block x y pressed_switch positions) = [ref pressed_switch]"

definition placeholder_refs :: "callback list \<Rightarrow> nat list" where
  "placeholder_refs cbs = concat (map placeholder cbs)"

section \<open>Runs of the game\<close>

text \<open>
  Modelled from the spec: the step loop. A run is a sequence of collision events, each
  dispatched to the handler of its pair of categories, and of moments at which the event
  loop has reached a given time and fires the callbacks that are due. An error raised by a
  handler ends the run. \<open>fired\<close> lists the callbacks a run fires, in order, and
  \<open>expiries\<close> the pending removals of the invincibility flag.
\<close>

datatype event =
    Tick nat
  | Player_item thing
  | Player_block "direction option" thing
  | Player_leaves_block thing
  | Player_mob "direction option" thing
  | Mob_block "direction option" thing thing
  | Mob_mob thing thing
  | Mob_item thing thing

fun step :: "env \<Rightarrow> event \<Rightarrow> app \<Rightarrow> error + app" where
  "step e (Tick t) s = Inr (advance t s)"
| "step e (Player_item dropped_item) s = Inr (snd (handle_player_collide_item e dropped_item s))"
| "step e (Player_block d block) s =
     (case handle_player_collide_block e d block s of
        Inl err \<Rightarrow> Inl err
      | Inr r \<Rightarrow> Inr (snd r))"
| "step e (Player_leaves_block block) s = Inr (snd (handle_player_separate_block block s))"
| "step e (Player_mob d mob) s = Inr (snd (handle_player_collide_mob e d mob s))"
| "step e (Mob_block d mob block) s = Inr (snd (handle_mob_collide_block d mob block s))"
| "step e (Mob_mob mob1 mob2) s = Inr (snd (handle_mob_collide_mob mob1 mob2 s))"
| "step e (Mob_item mob block) s = Inr (snd (handle_mob_collide_item mob block s))"


fun fired :: "env \<Rightarrow> event list \<Rightarrow> app \<Rightarrow> callback list" where
  "fired e [] s = []"
| "fired e (ev # evs) s =
     (case ev of Tick t \<Rightarrow> due t s | _ \<Rightarrow> [])
     @ (case step e ev s of
          Inl err \<Rightarrow> []
        | Inr s' \<Rightarrow> fired e evs s')"




section \<open>The entity classes of app.py\<close>

text \<open>The classes Switch, Flag, Mushroom and Star with their class attributes; \<open>n\<close> is the
  identity of the new object.\<close>

definition Switch :: "nat \<Rightarrow> thing" where
  "Switch n =
     \<lparr>ref = n, category = BlockCat, get_id = ''switch'', get_position = (0, 0),
      switch_flag = False, get_tempo = 0\<rparr>"

definition Flag :: "nat \<Rightarrow> thing" where
  "Flag n =
     \<lparr>ref = n, category = BlockCat, get_id = ''flag'', get_position = (0, 0),
      switch_flag = False, get_tempo = 0\<rparr>"

definition Mushroom :: "nat \<Rightarrow> thing" where
  "Mushroom n =
     \<lparr>ref = n, category = MobCat, get_id = ''mushroom'', get_position = (0, 0),
      switch_flag = False, get_tempo = 15\<rparr>"

definition Star :: "nat \<Rightarrow> thing" where
  "Star n =
     \<lparr>ref = n, category = ItemCat, get_id = ''star'', get_position = (0, 0),
      switch_flag = False, get_tempo = 0\<rparr>"

section \<open>An example level\<close>

text \<open>
  A small level on which the properties below are evaluated: the player, in the air with
  health 3 of 5, is just above a switch, with one brick within ten blocks of the switch and
  one far away, a cube, a mushroom, a star, a bounce block and a flag. In the example
  environment the \<^verbatim>\<open>on_hit\<close> callbacks do nothing, a thing is in range when its position
  is within the radius, every level file holds a single cube, and the user answers the
  dialog of \<^verbatim>\<open>death\<close> with yes.
\<close>

definition demo_env :: env where
  "demo_env =
     \<lparr>load_world = (\<lambda>level. \<lparr>things = [place (Block 100 ''cube'') 0 160]\<rparr>),
      within = (\<lambda>t x y r.
        (fst (get_position t) - x) * (fst (get_position t) - x)
          + (snd (get_position t) - y) * (snd (get_position t) - y) \<le> r * r),
      block_on_hit = (\<lambda>b wp. wp),
      mob_on_hit = (\<lambda>m wp. wp),
      collect = (\<lambda>i p. change_score 10 p),
      askquestion_yes = True\<rparr>"

definition demo_player :: player where
  "demo_player =
     \<lparr>player_ref = 0, get_health = 3, get_max_health = 5, get_velocity = (0, 0),
      is_jumping = True, get_score = 0\<rparr>"

definition demo_world :: world where
  "demo_world =
     \<lparr>things =
        [place (player_thing demo_player) 160 144,
         place (Switch 1) 160 160,
         place (Block 2 ''brick'') 176 160,
         place (Block 3 ''brick'') 1600 160,
         place (Block 4 ''cube'') 144 160,
         place (Mushroom 5) 200 160,
         place (Star 6) 160 100,
         place (Block 7 ''bounce_block'') 320 160,
         place (Flag 8) 640 160]\<rparr>"

definition demo_app :: app where
  "demo_app =
     \<lparr>world = demo_world, player = demo_player, invincibility = False, on_tunnel = False,
      app_switch = False,
      config = [''==level1.txt=='' \<mapsto> [''tunnel : bonus.txt'', ''goal : level2.txt'']],
      current_level = ''level1.txt'', x_start = 0, y_start = 0, health = 5, now = 0,
      pending = [], next_ref = 10, dialogs = [], destroyed = False\<rparr>"

text \<open>The example level once the player has landed on the switch.\<close>

definition demo_pressed :: app where
  "demo_pressed =
     press_switch demo_env (place (Switch 1) 160 160)
       (hit_block demo_env (Some DirB) (place (Switch 1) 160 160) demo_app)"

text \<open>The example level once the player has picked the star up, and once the player has
  picked a second star up 5000 ms later.\<close>

definition demo_star1 :: app where
  "demo_star1 = snd (handle_player_collide_item demo_env (place (Star 6) 160 100) demo_app)"


text \<open>The example level with a star picked up first and the switch pressed afterwards.\<close>

definition demo_star_pressed :: app where
  "demo_star_pressed =
     press_switch demo_env (place (Switch 1) 160 160)
       (hit_block demo_env (Some DirB) (place (Switch 1) 160 160) demo_star1)"

text \<open>An environment whose level files differ, and a configuration with a section for each
  of two levels: the goal of level 1 is level 2, the goal of level 2 is level 3.\<close>

definition demo_levels :: env where
  "demo_levels =
     demo_env\<lparr>load_world := (\<lambda>level.
       if level = ''level2.txt'' then \<lparr>things = [place (Flag 200) 640 160]\<rparr>
       else if level = ''level3.txt'' then \<lparr>things = [place (Block 300 ''cube'') 0 160]\<rparr>
       else \<lparr>things = []\<rparr>)\<rparr>"

definition demo_two_levels :: app where
  "demo_two_levels =
     demo_app\<lparr>config :=
       [''==level1.txt=='' \<mapsto> [''tunnel : bonus.txt'', ''goal : level2.txt''],
        ''==level2.txt=='' \<mapsto> [''goal : level3.txt'']]\<rparr>"

text \<open>The state after the flag of level 1 is reached from above: level 2 is loaded, the
  player has full health.\<close>

definition demo_level2 :: app where
  "demo_level2 =
     demo_two_levels
       \<lparr>world := add_player (load_world demo_levels ''level2.txt'') demo_player 0 0,
        player := demo_player\<lparr>is_jumping := False, get_health := 5\<rparr>\<rparr>"

lemmas demo_defs = demo_app_def demo_world_def demo_player_def demo_env_def Switch_def Flag_def
  Mushroom_def Star_def Block_def Switch_Pressed_def place_def player_thing_def

section \<open>Mobs and blocks\<close>

text \<open>
  Claim C4: a mob never collides physically with a pressed switch, whichever kind of mob it
  is. The handler tests the kind of the mob before it looks at the block, so the rejection
  is reached only for a mob that is neither a fireball nor a mushroom: a mushroom that
  touches a pressed switch gets True, the physical collision is accepted.
\<close>

theorem mushroom_collides_pressed_switch:
  "fst (handle_mob_collide_block d (Mushroom n) (Switch_Pressed k) s) = True"
  by (simp add: handle_mob_collide_block_def Mushroom_def Switch_Pressed_def)

section \<open>The player and mobs\<close>

text \<open>
  Claim C9: the handler of a collision between the player and a mob returns True on every
  path: whatever the mob, the direction, the state and the environment, the physical
  collision is accepted.
\<close>

theorem player_mob_always_accepted:
  "fst (handle_player_collide_mob e d mob s) = True"
  by (simp add: handle_player_collide_mob_def Let_def)

text \<open>
  Claim C6: when the player, alive, is invincible and touches a mob, whatever the mob and
  the direction, the handler only removes the mob from the world: the health of the player
  is unchanged and no thing with the identity of the mob is left in the world.
\<close>

theorem invincible_player_mob:
  assumes "invincibility s" and "\<not> is_dead (player s)"
  shows "handle_player_collide_mob e d mob s = (True, s\<lparr>world := remove_mob (world s) mob\<rparr>)
     \<and> get_health (player (snd (handle_player_collide_mob e d mob s))) = get_health (player s)
     \<and> ref mob \<notin> ref ` set (things (world (snd (handle_player_collide_mob e d mob s))))"
  using assms
  by (auto simp add: handle_player_collide_mob_def Let_def remove_mob_def remove_thing_def)

theorem invincible_player_mob_witness:
  "get_health (player (snd (handle_player_collide_mob demo_env (Some DirR)
      (place (Mushroom 5) 200 160) (demo_app\<lparr>invincibility := True\<rparr>)))) = 3
   \<and> map ref (things (world (snd (handle_player_collide_mob demo_env (Some DirR)
      (place (Mushroom 5) 200 160) (demo_app\<lparr>invincibility := True\<rparr>)))))
     = [0, 1, 2, 3, 4, 6, 7, 8]"
proof -
  have h1: "invincibility (demo_app\<lparr>invincibility := True\<rparr>)" by simp
  have h2: "\<not> is_dead (player (demo_app\<lparr>invincibility := True\<rparr>))"
    by (simp add: is_dead_def demo_defs)
  show ?thesis
    using invincible_player_mob [OF h1 h2, of demo_env "Some DirR" "place (Mushroom 5) 200 160"]
    by (simp add: demo_defs remove_mob_def remove_thing_def)
qed




section \<open>The player and blocks\<close>


text \<open>
  Claim C8 says that every collision of the player with a bounce block gives the player the
  jump impulse. The handler calls \<^verbatim>\<open>_jump\<close>, which does nothing while the jumping flag is
  set: a player in the air who touches the side of a bounce block keeps the velocity.
\<close>

theorem bounce_block_counterexample:
  "handle_player_collide_block demo_env (Some DirL) (place (Block 7 ''bounce_block'') 320 160) demo_app
     = Inr (True, demo_app)
   \<and> snd (get_velocity (player demo_app)) \<noteq> - BLOCK_SIZE * JUMP_SIZE"
  by (simp add: handle_player_collide_block_def hit_block_def jump_def Let_def demo_defs
      BLOCK_SIZE_def JUMP_SIZE_def)

text \<open>
  Claim C8, as amended: on a collision with a bounce block the handler calls \<^verbatim>\<open>_jump\<close>
  once the block's \<^verbatim>\<open>on_hit\<close> has run. When the jumping flag is clear at that point the
  vertical velocity becomes -160 (the jump value, ten blocks upwards), the horizontal
  velocity staying; when the flag is set nothing changes. Landing on top of the block clears
  the flag first, so (with an \<^verbatim>\<open>on_hit\<close> that leaves the flag alone) a landing always bounces.
\<close>

theorem bounce_block_jump:
  assumes "get_id block = ''bounce_block''"
  shows "handle_player_collide_block e d block s = Inr (True, jump (hit_block e d block s))
    \<and> (\<not> is_jumping (player (hit_block e d block s)) \<longrightarrow>
         get_velocity (player (jump (hit_block e d block s)))
           = (fst (get_velocity (player (hit_block e d block s))), - 160))
    \<and> (is_jumping (player (hit_block e d block s)) \<longrightarrow>
         jump (hit_block e d block s) = hit_block e d block s)
    \<and> (d = Some DirB \<and> (\<forall>w p. is_jumping (snd (block_on_hit e block (w, p))) = is_jumping p) \<longrightarrow>
         snd (get_velocity (player (jump (hit_block e d block s)))) = - 160)"
  using assms
  by (auto simp add: handle_player_collide_block_def Let_def jump_def set_velocity_def
      BLOCK_SIZE_def JUMP_SIZE_def hit_block_def set_jumping_def)

theorem bounce_block_jump_witness:
  "handle_player_collide_block demo_env (Some DirB) (place (Block 7 ''bounce_block'') 320 160) demo_app
     = Inr (True, demo_app\<lparr>player := demo_player\<lparr>is_jumping := False, get_velocity := (0, - 160)\<rparr>\<rparr>)"
proof -
  have b: "get_id (place (Block 7 ''bounce_block'') 320 160) = ''bounce_block''"
    by (simp add: place_def Block_def)
  show ?thesis
    using bounce_block_jump [OF b, of demo_env "Some DirB" demo_app]
    by (simp add: hit_block_def jump_def Let_def demo_app_def demo_env_def demo_player_def
        set_jumping_def set_velocity_def BLOCK_SIZE_def JUMP_SIZE_def)
qed


text \<open>The lookup of the next level reads the section of \<^verbatim>\<open>self.current_level\<close> and loads, in
  order, the levels its lines of the given kind name. It assigns neither the player nor
  \<^verbatim>\<open>self.current_level\<close>.\<close>

lemma fold_reset_world:
  "fold (\<lambda>i s'. if startswith i type then reset_world e (strip_spaces (last_field i)) s' else s')
     lines s
   = fold (reset_world e) (next_levels type lines) s"
  by (induction lines arbitrary: s) (simp_all add: next_levels_def)

lemma goto_next_level_eq:
  "goto_next_level e type s =
     (case config s (''=='' @ current_level s @ ''=='') of
        None \<Rightarrow> Inl KeyError
      | Some lines \<Rightarrow> Inr (fold (reset_world e) (next_levels type lines) s))"
  by (simp add: goto_next_level_def fold_reset_world split: option.splits)

lemma reset_world_current_level: "current_level (reset_world e lvl s) = current_level s"
  by (simp add: reset_world_def game_end_def)

lemma fold_reset_world_current_level:
  "current_level (fold (reset_world e) lvls s) = current_level s"
  by (induction lvls arbitrary: s) (simp_all add: reset_world_current_level)


lemma goto_next_level_current_level:
  "goto_next_level e type s = Inr s' \<Longrightarrow> current_level s' = current_level s"
  by (auto simp add: goto_next_level_eq fold_reset_world_current_level split: option.splits)




text \<open>
  The level lookup never assigns \<^verbatim>\<open>self.current_level\<close> (only loading a level from the menu
  does): after the first flag the attribute still names level 1, and the flag of level 2
  looks the goal of level 1 up again and reloads level 2, although the section of level 2
  names level 3.
\<close>

lemma second_flag_reloads_level2:
  "current_level demo_level2 = ''level1.txt''
   \<and> config demo_level2 ''==level2.txt=='' = Some [''goal : level3.txt'']
   \<and> map_sum id (\<lambda>r. things (world (snd r)))
       (handle_player_collide_block demo_levels (Some DirB) (place (Flag 200) 640 160) demo_level2)
     = Inr [place (Flag 200) 640 160, place (player_thing demo_player) 0 0]"
  by (simp add: handle_player_collide_block_def hit_block_def Let_def goto_next_level_eq
      next_levels_def startswith_def last_field_def strip_spaces_def reset_world_def
      demo_level2_def demo_two_levels_def demo_levels_def demo_defs add_player_def add_thing_def
      set_jumping_def change_health_def)

section \<open>Switches\<close>

text \<open>The loop over the things in range removes exactly the bricks among them, and records
  their positions in order.\<close>

lemma clear_bricks_eq:
  "clear_bricks p xs (w, ps) =
     (w\<lparr>things := filter (\<lambda>u. ref u \<notin> ref ` set (filter (\<lambda>i. ref i \<noteq> player_ref p \<and> get_id i = ''brick'') xs))
                     (things w)\<rparr>,
      ps @ map get_position (filter (\<lambda>i. ref i \<noteq> player_ref p \<and> get_id i = ''brick'') xs))"
proof (induction xs arbitrary: w ps)
  case Nil
  then show ?case by simp
next
  case (Cons i rest)
  show ?case
    by (simp add: Cons.IH remove_block_def remove_thing_def conj_commute)
qed

text \<open>What the first statements of the handler leave alone.\<close>

lemma hit_block_fields:
  "next_ref (hit_block e d block s) = next_ref s"
  "pending (hit_block e d block s) = pending s"
  "now (hit_block e d block s) = now s"
  by (simp_all add: hit_block_def Let_def)

text \<open>The world, the timers and the player after a switch is pressed.\<close>

lemma press_switch_things:
  "things (world (press_switch e block s)) =
     filter (\<lambda>u. ref u \<noteq> ref block \<and> ref u \<notin> ref ` set (bricks_in_range e s block)) (things (world s))
     @ [place (Switch_Pressed (next_ref s)) (fst (get_position block)) (snd (get_position block))]"
  by (simp add: press_switch_def Let_def clear_bricks_eq bricks_in_range_def after_def
      add_block_def add_thing_def remove_block_def remove_thing_def place_def conj_commute)

lemma press_switch_pending:
  "pending (press_switch e block s) =
     pending s @ [(now s + TIMING_switch,
        Unpress_switch (block\<lparr>switch_flag := True\<rparr>) (fst (get_position block)) (snd (get_position block))
          (place (Switch_Pressed (next_ref s)) (fst (get_position block)) (snd (get_position block)))
          (map get_position (bricks_in_range e s block)))]"
  by (simp add: press_switch_def Let_def clear_bricks_eq bricks_in_range_def after_def)

lemma press_switch_player: "player (press_switch e block s) = player s"
  by (simp add: press_switch_def Let_def after_def)

lemma bricks_in_range_set:
  "t \<in> set (bricks_in_range e s block) \<longleftrightarrow>
     t \<in> set (things (world s)) \<and> ref t \<noteq> player_ref (player s) \<and> get_id t = ''brick''
     \<and> within e t (fst (get_position block)) (snd (get_position block)) (BLOCK_SIZE * 10)"
  by (auto simp add: bricks_in_range_def get_things_in_range_def)

text \<open>
  Claim C2 says that every collision of the player with an unpressed switch clears the
  bricks and starts the timer. The handler does so only when the player landed on top of
  the switch: after a contact on the left side the brick in range is still in the world and
  no timer is pending.
\<close>

theorem switch_side_counterexample:
  "handle_player_collide_block demo_env (Some DirL) (place (Switch 1) 160 160) demo_app
     = Inr (True, demo_app)
   \<and> place (Block 2 ''brick'') 176 160 \<in> set (things (world demo_app))
   \<and> within demo_env (place (Block 2 ''brick'') 176 160) 160 160 (BLOCK_SIZE * 10)
   \<and> pending demo_app = []"
  by (simp add: handle_player_collide_block_def hit_block_def Let_def demo_defs BLOCK_SIZE_def)

text \<open>
  Claim C2, as amended: when the player lands on top of an unpressed switch the handler,
  after the block's \<^verbatim>\<open>on_hit\<close>, accepts the collision, leaves no brick within ten blocks of the
  switch in the world (the player object apart), takes the switch out and puts a new pressed
  switch at its coordinates, and schedules exactly one revert timer, 1000 ms ahead, with the
  positions of the bricks it removed. A contact on another face of an unpressed switch is
  accepted and changes nothing. A contact with the pressed switch, or with a switch whose
  flag is already set, is rejected and neither clears bricks nor schedules a timer.
\<close>

theorem switch_press_once:
  assumes "s1 = hit_block e d block s"
    and "x = fst (get_position block)" and "y = snd (get_position block)"
  shows
    "(get_id block = ''switch'' \<and> \<not> switch_flag block \<and> d = Some DirB \<longrightarrow>
        handle_player_collide_block e d block s = Inr (True, press_switch e block s1)
        \<and> (\<forall>t \<in> set (things (world (press_switch e block s1))).
              \<not> (get_id t = ''brick'' \<and> within e t x y (BLOCK_SIZE * 10)
                 \<and> ref t \<noteq> player_ref (player s1)))
        \<and> (\<exists>kept. things (world (press_switch e block s1))
                     = kept @ [place (Switch_Pressed (next_ref s)) x y]
              \<and> set kept \<subseteq> set (things (world s1)) \<and> ref block \<notin> ref ` set kept)
        \<and> pending (press_switch e block s1)
            = pending s @ [(now s + 1000,
                Unpress_switch (block\<lparr>switch_flag := True\<rparr>) x y
                  (place (Switch_Pressed (next_ref s)) x y)
                  (map get_position (bricks_in_range e s1 block)))])
     \<and> (get_id block = ''switch'' \<and> \<not> switch_flag block \<and> d \<noteq> Some DirB \<longrightarrow>
          handle_player_collide_block e d block s = Inr (True, s1))
     \<and> (get_id block = ''switch_pressed'' \<or> get_id block = ''switch'' \<and> switch_flag block \<longrightarrow>
          handle_player_collide_block e d block s = Inr (False, s1))"
proof -
  let ?s' = "press_switch e block s1"
  have handler: "handle_player_collide_block e d block s = Inr (True, ?s')"
    if "get_id block = ''switch''" "\<not> switch_flag block" "d = Some DirB"
    using that assms by (simp add: handle_player_collide_block_def Let_def)
  have bricks: "\<forall>t \<in> set (things (world ?s')).
      \<not> (get_id t = ''brick'' \<and> within e t x y (BLOCK_SIZE * 10) \<and> ref t \<noteq> player_ref (player s1))"
  proof
    fix t assume t: "t \<in> set (things (world ?s'))"
    show "\<not> (get_id t = ''brick'' \<and> within e t x y (BLOCK_SIZE * 10) \<and> ref t \<noteq> player_ref (player s1))"
    proof
      assume b: "get_id t = ''brick'' \<and> within e t x y (BLOCK_SIZE * 10) \<and> ref t \<noteq> player_ref (player s1)"
      then have "t \<noteq> place (Switch_Pressed (next_ref s1)) x y"
        by (auto simp add: place_def Switch_Pressed_def)
      with t have in1: "t \<in> set (things (world s1))"
        and out: "ref t \<notin> ref ` set (bricks_in_range e s1 block)"
        by (auto simp add: press_switch_things assms(2,3))
      from in1 b have "t \<in> set (bricks_in_range e s1 block)"
        by (simp add: bricks_in_range_set assms(2,3))
      with out show False by blast
    qed
  qed
  have placed: "\<exists>kept. things (world ?s') = kept @ [place (Switch_Pressed (next_ref s)) x y]
      \<and> set kept \<subseteq> set (things (world s1)) \<and> ref block \<notin> ref ` set kept"
    by (rule exI [of _ "filter (\<lambda>u. ref u \<noteq> ref block \<and> ref u \<notin> ref ` set (bricks_in_range e s1 block))
          (things (world s1))"])
      (auto simp add: press_switch_things assms hit_block_fields)
  have timer: "pending ?s' = pending s @ [(now s + 1000,
       Unpress_switch (block\<lparr>switch_flag := True\<rparr>) x y (place (Switch_Pressed (next_ref s)) x y)
         (map get_position (bricks_in_range e s1 block)))]"
    by (simp add: press_switch_pending assms hit_block_fields TIMING_switch_def)
  have side: "handle_player_collide_block e d block s = Inr (True, s1)"
    if "get_id block = ''switch''" "\<not> switch_flag block" "d \<noteq> Some DirB"
    using that assms by (simp add: handle_player_collide_block_def Let_def)
  have pressed: "handle_player_collide_block e d block s = Inr (False, s1)"
    if "get_id block = ''switch_pressed'' \<or> get_id block = ''switch'' \<and> switch_flag block"
    using that assms by (auto simp add: handle_player_collide_block_def Let_def)
  from handler bricks placed timer side pressed show ?thesis by blast
qed

text \<open>
  Claim C10: when an unpressed switch is pressed, in a world whose objects have distinct
  identities, a thing of the world is still in it afterwards, unchanged, exactly when it is
  neither the switch nor a thing with id "brick" in range (the player object is never
  removed); the only new thing is the pressed switch; the player's attributes are
  untouched. Cubes, base bricks, mobs and items, whose ids are not "brick", all stay.
\<close>

theorem switch_press_frame:
  assumes "get_id block = ''switch''" and "\<not> switch_flag block" and "d = Some DirB"
    and "s1 = hit_block e d block s"
    and "distinct (map ref (things (world s1)))"
    and "next_ref s \<notin> ref ` set (things (world s1))"
    and "x = fst (get_position block)" and "y = snd (get_position block)"
  shows
    "handle_player_collide_block e d block s = Inr (True, press_switch e block s1)
     \<and> (\<forall>t \<in> set (things (world s1)).
          t \<in> set (things (world (press_switch e block s1))) \<longleftrightarrow>
            ref t \<noteq> ref block
            \<and> \<not> (get_id t = ''brick'' \<and> within e t x y (BLOCK_SIZE * 10)
                  \<and> ref t \<noteq> player_ref (player s1)))
     \<and> set (things (world (press_switch e block s1)))
          \<subseteq> insert (place (Switch_Pressed (next_ref s)) x y) (set (things (world s1)))
     \<and> player (press_switch e block s1) = player s1"
proof -
  let ?s' = "press_switch e block s1"
  let ?B = "bricks_in_range e s1 block"
  let ?new = "place (Switch_Pressed (next_ref s)) x y"
  have inj: "inj_on ref (set (things (world s1)))"
    using assms(5) by (simp add: distinct_map)
  have nr: "next_ref s1 = next_ref s"
    by (simp add: assms(4) hit_block_fields)
  have things': "things (world ?s') =
      filter (\<lambda>u. ref u \<noteq> ref block \<and> ref u \<notin> ref ` set ?B) (things (world s1)) @ [?new]"
    by (simp add: press_switch_things nr assms(7,8))
  have "ref ?new = next_ref s"
    by (simp add: place_def Switch_Pressed_def)
  with assms(6) have new: "?new \<notin> set (things (world s1))"
    by (metis imageI)
  have handler: "handle_player_collide_block e d block s = Inr (True, ?s')"
    using assms(1-4) by (simp add: handle_player_collide_block_def Let_def)
  have frame: "t \<in> set (things (world ?s')) \<longleftrightarrow>
       ref t \<noteq> ref block
       \<and> \<not> (get_id t = ''brick'' \<and> within e t x y (BLOCK_SIZE * 10) \<and> ref t \<noteq> player_ref (player s1))"
    if t: "t \<in> set (things (world s1))" for t
  proof -
    have "ref t \<in> ref ` set ?B \<longleftrightarrow> t \<in> set ?B"
    proof
      assume "ref t \<in> ref ` set ?B"
      then obtain i where i: "i \<in> set ?B" "ref t = ref i" by blast
      then have "i \<in> set (things (world s1))" by (simp add: bricks_in_range_set)
      with inj t i(2) have "t = i" by (auto dest: inj_onD)
      with i(1) show "t \<in> set ?B" by simp
    qed blast
    moreover have "t \<noteq> ?new" using t new by blast
    ultimately show ?thesis
      using t by (auto simp add: things' bricks_in_range_set assms(7,8))
  qed
  have only: "set (things (world ?s')) \<subseteq> insert ?new (set (things (world s1)))"
    by (auto simp add: things')
  have pl: "player ?s' = player s1"
    by (rule press_switch_player)
  from handler frame only pl show ?thesis by blast
qed

text \<open>The definitions that evaluate a press on the example level.\<close>

lemmas press_eval = press_switch_def hit_block_def get_things_in_range_def after_def Let_def
  add_block_def add_thing_def remove_block_def remove_thing_def set_jumping_def
  BLOCK_SIZE_def TIMING_switch_def

theorem switch_press_once_witness:
  "map_sum id (\<lambda>r. (fst r, map ref (things (world (snd r))), pending (snd r)))
     (handle_player_collide_block demo_env (Some DirB) (place (Switch 1) 160 160) demo_app)
   = Inr (True, [0, 3, 4, 5, 6, 7, 8, 10],
          [(1000, Unpress_switch ((place (Switch 1) 160 160)\<lparr>switch_flag := True\<rparr>) 160 160
                    (place (Switch_Pressed 10) 160 160) [(176, 160)])])
   \<and> handle_player_collide_block demo_env (Some DirA) (place (Switch_Pressed 10) 160 160) demo_app
     = Inr (False, demo_app)"
proof -
  let ?sw = "place (Switch 1) 160 160"
  let ?pr = "place (Switch_Pressed 10) 160 160"
  from switch_press_once [where e = demo_env and d = "Some DirB" and block = ?sw and s = demo_app,
      OF refl refl refl]
  have press: "handle_player_collide_block demo_env (Some DirB) ?sw demo_app
      = Inr (True, press_switch demo_env ?sw (hit_block demo_env (Some DirB) ?sw demo_app))"
    by (simp add: place_def Switch_def)
  from switch_press_once [where e = demo_env and d = "Some DirA" and block = ?pr and s = demo_app,
      OF refl refl refl]
  have again: "handle_player_collide_block demo_env (Some DirA) ?pr demo_app
      = Inr (False, hit_block demo_env (Some DirA) ?pr demo_app)"
    by (simp add: place_def Switch_Pressed_def)
  show ?thesis
    unfolding press again
    by (simp add: press_eval demo_defs)
qed

theorem switch_press_frame_witness:
  "map_sum id (\<lambda>r. things (world (snd r)))
     (handle_player_collide_block demo_env (Some DirB) (place (Switch 1) 160 160) demo_app)
   = Inr [place (player_thing demo_player) 160 144,
          place (Block 3 ''brick'') 1600 160,
          place (Block 4 ''cube'') 144 160,
          place (Mushroom 5) 200 160,
          place (Star 6) 160 100,
          place (Block 7 ''bounce_block'') 320 160,
          place (Flag 8) 640 160,
          place (Switch_Pressed 10) 160 160]"
proof -
  let ?sw = "place (Switch 1) 160 160"
  let ?s1 = "hit_block demo_env (Some DirB) ?sw demo_app"
  have a1: "get_id ?sw = ''switch''" and a2: "\<not> switch_flag ?sw"
    by (simp_all add: place_def Switch_def)
  have a5: "distinct (map ref (things (world ?s1)))"
    by (simp add: hit_block_def Let_def demo_defs)
  have a6: "next_ref demo_app \<notin> ref ` set (things (world ?s1))"
    by (simp add: hit_block_def Let_def demo_defs)
  from switch_press_frame [OF a1 a2 refl refl a5 a6 refl refl]
  have press: "handle_player_collide_block demo_env (Some DirB) ?sw demo_app
      = Inr (True, press_switch demo_env ?sw ?s1)"
    by blast
  show ?thesis
    unfolding press
    by (simp add: press_eval demo_defs)
qed

section \<open>The switch timer\<close>

text \<open>What firing the revert timer does to the world it finds.\<close>

lemma new_bricks_length: "length (new_bricks n positions) = length positions"
  by (induction n positions rule: new_bricks.induct) simp_all

lemma new_bricks_ref: "t \<in> set (new_bricks n positions) \<Longrightarrow> n \<le> ref t"
  by (induction n positions rule: new_bricks.induct)
    (auto simp add: place_def Block_def dest: Suc_leD)

lemma restore_bricks_pending: "pending (restore_bricks positions s) = pending s"
  by (induction positions arbitrary: s) simp_all

lemma restore_bricks_things:
  "things (world (restore_bricks positions s)) = things (world s) @ new_bricks (next_ref s) positions"
  by (induction positions arbitrary: s)
    (simp_all add: add_block_def add_thing_def)

lemma unpress_switch_things:
  "things (world (unpress_switch block x y pressed_switch positions s)) =
     filter (\<lambda>u. ref u \<noteq> ref pressed_switch) (things (world s) @ new_bricks (next_ref s) positions)
     @ [place (block\<lparr>switch_flag := False\<rparr>) x y]"
  by (simp add: unpress_switch_def Let_def restore_bricks_things add_block_def add_thing_def
      remove_block_def remove_thing_def)

text \<open>With a single pending callback whose deadline has passed, the event loop fires it.\<close>

lemma advance_single:
  assumes "pending s = [(deadline, cb)]" and "deadline \<le> t"
  shows "advance t s = fire cb (s\<lparr>pending := [], now := max (now s) t\<rparr>)"
  using assms by (simp add: advance_def due_def)

section \<open>The event loop\<close>




lemma fire_pending: "pending (fire cb s) = pending s"
  by (cases cb)
    (simp_all add: remove_invincibility_def unpress_switch_def Let_def restore_bricks_pending)

lemma fold_fire_pending: "pending (fold fire cbs s) = pending s"
  by (induction cbs arbitrary: s) (simp_all add: fire_pending)

text \<open>The event loop: what stays pending, the flag afterwards, and the callbacks fired.\<close>

lemma advance_pending: "pending (advance t s) = filter (\<lambda>tm. t < fst tm) (pending s)"
  by (simp add: advance_def fold_fire_pending)



lemma due_set: "set (due t s) = snd ` {tm \<in> set (pending s). fst tm \<le> t}"
  by (simp add: due_def)

text \<open>Sorting the callbacks due at a later time: those due earlier come first.\<close>

lemma insort_key_append_left:
  assumes "\<forall>b \<in> set bs. f x \<le> f b"
  shows "insort_key f x (as @ bs) = insort_key f x as @ bs"
  using assms by (induction as) (cases bs, auto)

lemma insort_key_append_right:
  assumes "\<forall>a \<in> set as. \<not> f x \<le> f a"
  shows "insort_key f x (as @ bs) = as @ insort_key f x bs"
  using assms by (induction as) auto

lemma sort_key_split:
  fixes t1 t2 :: nat
  assumes "t1 \<le> t2"
  shows "sort_key fst (filter (\<lambda>tm. fst tm \<le> t2) xs)
       = sort_key fst (filter (\<lambda>tm. fst tm \<le> t1) xs)
         @ sort_key fst (filter (\<lambda>tm. t1 < fst tm \<and> fst tm \<le> t2) xs)"
proof (induction xs)
  case Nil
  then show ?case by simp
next
  case (Cons x xs)
  let ?A = "sort_key fst (filter (\<lambda>tm. fst tm \<le> t1) xs)"
  let ?B = "sort_key fst (filter (\<lambda>tm. t1 < fst tm \<and> fst tm \<le> t2) xs)"
  consider "fst x \<le> t1" | "t1 < fst x" "fst x \<le> t2" | "t2 < fst x" by linarith
  then show ?case
  proof cases
    case 1
    then have "\<forall>b \<in> set ?B. fst x \<le> fst b" by auto
    then have "insort_key fst x (?A @ ?B) = insort_key fst x ?A @ ?B"
      by (rule insort_key_append_left)
    with 1 assms Cons.IH show ?thesis by simp
  next
    case 2
    then have "\<forall>a \<in> set ?A. \<not> fst x \<le> fst a" by auto
    then have "insort_key fst x (?A @ ?B) = ?A @ insort_key fst x ?B"
      by (rule insort_key_append_right)
    with 2 Cons.IH show ?thesis by simp
  next
    case 3
    with assms Cons.IH show ?thesis by simp
  qed
qed

text \<open>No callback reads the clock or the pending timers.\<close>

lemma restore_bricks_update:
  "restore_bricks positions (s\<lparr>pending := p, now := n\<rparr>)
     = (restore_bricks positions s)\<lparr>pending := p, now := n\<rparr>"
proof (induction positions arbitrary: s)
  case Nil
  show ?case by simp
next
  case (Cons i rest)
  let ?s' = "s\<lparr>world := add_block (world s) (Block (next_ref s) ''brick'') (fst i) (snd i),
                next_ref := Suc (next_ref s)\<rparr>"
  let ?u = "s\<lparr>pending := p, now := n\<rparr>"
  have eq: "?u\<lparr>world := add_block (world ?u) (Block (next_ref ?u) ''brick'') (fst i) (snd i),
               next_ref := Suc (next_ref ?u)\<rparr>
        = ?s'\<lparr>pending := p, now := n\<rparr>"
    by (rule app.equality) simp_all
  have "restore_bricks (i # rest) ?u
      = restore_bricks rest
          (?u\<lparr>world := add_block (world ?u) (Block (next_ref ?u) ''brick'') (fst i) (snd i),
               next_ref := Suc (next_ref ?u)\<rparr>)"
    by (rule restore_bricks.simps(2))
  also have "\<dots> = restore_bricks rest (?s'\<lparr>pending := p, now := n\<rparr>)"
    by (simp only: eq)
  also have "\<dots> = (restore_bricks rest ?s')\<lparr>pending := p, now := n\<rparr>"
    by (rule Cons.IH)
  also have "\<dots> = (restore_bricks (i # rest) s)\<lparr>pending := p, now := n\<rparr>"
    by simp
  finally show ?case .
qed

lemma fire_update: "fire cb (s\<lparr>pending := p, now := n\<rparr>) = (fire cb s)\<lparr>pending := p, now := n\<rparr>"
  by (cases cb)
    (simp_all add: remove_invincibility_def unpress_switch_def Let_def restore_bricks_update)

lemma fold_fire_update:
  "fold fire cbs (s\<lparr>pending := p, now := n\<rparr>) = (fold fire cbs s)\<lparr>pending := p, now := n\<rparr>"
  by (induction cbs arbitrary: s) (simp_all add: fire_update)

text \<open>The event loop may reach a time in one step or in several: the state is the same.\<close>

lemma advance_advance:
  assumes "t1 \<le> t2"
  shows "advance t2 (advance t1 s) = advance t2 s"
proof -
  let ?P = "pending s"
  have split: "due t2 s = due t1 s @ map snd (sort_key fst (filter (\<lambda>tm. t1 < fst tm \<and> fst tm \<le> t2) ?P))"
    by (simp add: due_def sort_key_split [OF assms])
  have d2: "due t2 (advance t1 s)
      = map snd (sort_key fst (filter (\<lambda>tm. t1 < fst tm \<and> fst tm \<le> t2) ?P))"
    by (simp add: due_def advance_pending conj_commute)
  have p2: "filter (\<lambda>tm. t2 < fst tm) (pending (advance t1 s)) = filter (\<lambda>tm. t2 < fst tm) ?P"
    using assms by (auto simp add: advance_pending intro: filter_cong)
  have a1: "advance t1 s = (fold fire (due t1 s) s)\<lparr>pending := filter (\<lambda>tm. t1 < fst tm) ?P, now := max (now s) t1\<rparr>"
    by (simp add: advance_def fold_fire_update)
  have n1: "now (advance t1 s) = max (now s) t1"
    by (simp add: a1)
  have m: "max (max (now s) t1) t2 = max (now s) t2"
    using assms by simp
  show ?thesis
    unfolding advance_def [of t2] d2 p2 n1 m split fold_append comp_def
    by (simp add: a1 fold_fire_update)
qed

text \<open>A callback keeps every thing whose identity is not that of the pressed switch it
  removes, and never lowers the next free identity.\<close>

lemma placeholder_refs_set:
  "set (placeholder_refs cbs) = (\<Union>cb \<in> set cbs. set (placeholder cb))"
  by (simp add: placeholder_refs_def)

lemma placeholder_refs_mono:
  "set cbs \<subseteq> set cbs' \<Longrightarrow> set (placeholder_refs cbs) \<subseteq> set (placeholder_refs cbs')"
  by (auto simp add: placeholder_refs_set)

lemma due_subset: "set (due t s) \<subseteq> set (map snd (pending s))"
  by (auto simp add: due_set)

lemma new_bricks_positions: "map get_position (new_bricks n positions) = positions"
  by (induction n positions rule: new_bricks.induct) (simp_all add: place_def)

lemma new_bricks_id: "b \<in> set (new_bricks n positions) \<Longrightarrow> get_id b = ''brick''"
  by (induction n positions rule: new_bricks.induct) (auto simp add: place_def Block_def)

lemma restore_bricks_next_ref:
  "next_ref (restore_bricks positions s) = next_ref s + length positions"
  by (induction positions arbitrary: s) simp_all

lemma fire_next_ref: "next_ref s \<le> next_ref (fire cb s)"
  by (cases cb)
    (simp_all add: remove_invincibility_def unpress_switch_def Let_def restore_bricks_next_ref)

lemma fold_fire_next_ref: "next_ref s \<le> next_ref (fold fire cbs s)"
proof (induction cbs arbitrary: s)
  case Nil
  show ?case by simp
next
  case (Cons cb cbs)
  have "next_ref s \<le> next_ref (fire cb s)" by (rule fire_next_ref)
  also have "\<dots> \<le> next_ref (fold fire cbs (fire cb s))" by (rule Cons.IH)
  finally show ?case by simp
qed

lemma fire_keeps:
  assumes "u \<in> set (things (world s))" and "ref u \<notin> set (placeholder_refs [cb])"
  shows "u \<in> set (things (world (fire cb s)))"
  using assms
  by (cases cb) (auto simp add: remove_invincibility_def unpress_switch_things placeholder_refs_def)

lemma fold_fire_keeps:
  assumes "u \<in> set (things (world s))" and "ref u \<notin> set (placeholder_refs cbs)"
  shows "u \<in> set (things (world (fold fire cbs s)))"
  using assms
proof (induction cbs arbitrary: s)
  case Nil
  then show ?case by simp
next
  case (Cons cb cbs)
  from Cons.prems(2) have a: "ref u \<notin> set (placeholder_refs [cb])"
    and b: "ref u \<notin> set (placeholder_refs cbs)"
    by (auto simp add: placeholder_refs_set)
  from fire_keeps [OF Cons.prems(1) a] have "u \<in> set (things (world (fire cb s)))" .
  from Cons.IH [OF this b] show ?case by simp
qed

lemma advance_fold:
  "advance t s = (fold fire (due t s) s)\<lparr>pending := filter (\<lambda>tm. t < fst tm) (pending s),
                                         now := max (now s) t\<rparr>"
  by (simp add: advance_def fold_fire_update)

lemma advance_world: "world (advance t s) = world (fold fire (due t s) s)"
  by (simp add: advance_fold)

section \<open>The switch timer and level changes\<close>

text \<open>
  Claim C1 says that a revert timer which fires after a level change restores nothing. The
  callback works on \<^verbatim>\<open>self._world\<close>, whatever world that is when it fires: the player presses
  the switch of the example level, the next level (a single cube) is loaded, and when the
  timer fires 1000 ms after the press a brick and the switch of the old level are added to
  the new one.
\<close>

theorem stale_switch_timer_counterexample:
  "handle_player_collide_block demo_env (Some DirB) (place (Switch 1) 160 160) demo_app
     = Inr (True, demo_pressed)
   \<and> things (world (reset_world demo_env ''level2.txt'' demo_pressed))
     = [place (Block 100 ''cube'') 0 160, place (player_thing demo_player) 0 0]
   \<and> things (world (advance 1000 (reset_world demo_env ''level2.txt'' demo_pressed)))
     = [place (Block 100 ''cube'') 0 160, place (player_thing demo_player) 0 0,
        place (Block 11 ''brick'') 176 160, place (Switch 1) 160 160]"
proof -
  have press: "handle_player_collide_block demo_env (Some DirB) (place (Switch 1) 160 160) demo_app
     = Inr (True, demo_pressed)"
    by (simp add: handle_player_collide_block_def Let_def demo_pressed_def place_def Switch_def)
  have p: "pending (reset_world demo_env ''level2.txt'' demo_pressed)
     = [(1000, Unpress_switch ((place (Switch 1) 160 160)\<lparr>switch_flag := True\<rparr>) 160 160
                    (place (Switch_Pressed 10) 160 160) [(176, 160)])]"
    by (simp add: reset_world_def demo_pressed_def press_eval demo_defs)
  have w: "things (world (reset_world demo_env ''level2.txt'' demo_pressed))
     = [place (Block 100 ''cube'') 0 160, place (player_thing demo_player) 0 0]"
    by (simp add: reset_world_def demo_pressed_def press_eval demo_defs add_player_def)
  have n: "next_ref (reset_world demo_env ''level2.txt'' demo_pressed) = 11"
    by (simp add: reset_world_def demo_pressed_def press_eval demo_defs)
  have fired: "things (world (advance 1000 (reset_world demo_env ''level2.txt'' demo_pressed)))
     = [place (Block 100 ''cube'') 0 160, place (player_thing demo_player) 0 0,
        place (Block 11 ''brick'') 176 160, place (Switch 1) 160 160]"
    by (simp add: advance_single [OF p] unpress_switch_things w n)
      (simp add: demo_defs)
  from press w fired show ?thesis by simp
qed

text \<open>
  Claim C1, as amended: a pending revert timer survives a level change, whatever other
  timers are pending, and when the event loop reaches its deadline it fires in its turn and
  acts on the world that is active then, with no check that it is the world the switch
  belonged to. With pressed switches that were allocated before and are objects other than
  the switch, the world then holds one new brick for every recorded position and the
  original switch, unpressed, at its coordinates; every thing of the new level whose
  identity is not that of a pressed switch being removed stays; and no timer that was due
  is left pending.
\<close>

theorem stale_switch_timer:
  assumes "(deadline, Unpress_switch block x y pressed_switch positions) \<in> set (pending s)"
    and "deadline \<le> t" and "new_level \<noteq> ''END''"
    and "\<forall>r \<in> set (placeholder_refs (map snd (pending s))). r < next_ref s"
    and "ref block \<notin> set (placeholder_refs (map snd (pending s)))"
    and "s' = reset_world e new_level s"
  shows "world s' = add_player (load_world e new_level) (player s) (x_start s) (y_start s)
     \<and> (\<exists>before later.
           due t s' = before @ Unpress_switch block x y pressed_switch positions # later
           \<and> world (advance t s')
               = world (fold fire later
                   (fire (Unpress_switch block x y pressed_switch positions) (fold fire before s'))))
     \<and> (\<exists>n \<ge> next_ref s.
           set (new_bricks n positions) \<subseteq> set (things (world (advance t s')))
           \<and> map get_position (new_bricks n positions) = positions
           \<and> (\<forall>b \<in> set (new_bricks n positions). get_id b = ''brick''))
     \<and> place (block\<lparr>switch_flag := False\<rparr>) x y \<in> set (things (world (advance t s')))
     \<and> (\<forall>u \<in> set (things (world s')).
           ref u \<notin> set (placeholder_refs (due t s')) \<longrightarrow> u \<in> set (things (world (advance t s'))))
     \<and> (\<forall>tm \<in> set (pending (advance t s')). t < fst tm)
     \<and> (\<forall>u. things (world (fire (Unpress_switch block x y pressed_switch positions) u))
           = filter (\<lambda>v. ref v \<noteq> ref pressed_switch)
               (things (world u) @ new_bricks (next_ref u) positions)
             @ [place (block\<lparr>switch_flag := False\<rparr>) x y])"
proof -
  let ?cb = "Unpress_switch block x y pressed_switch positions"
  have r: "s' = s\<lparr>world := add_player (load_world e new_level) (player s) (x_start s) (y_start s)\<rparr>"
    using assms(3,6) by (simp add: reset_world_def)
  have p: "pending s' = pending s" and nr: "next_ref s' = next_ref s"
    by (simp_all add: r)
  have "?cb \<in> set (due t s')"
    using assms(1,2) by (force simp add: due_set p)
  then obtain before later where split: "due t s' = before @ ?cb # later"
    by (auto dest: split_list)
  let ?u0 = "fold fire before s'"
  let ?u1 = "fire ?cb ?u0"
  have w: "world (advance t s') = world (fold fire later ?u1)"
    by (simp add: advance_world split)
  have refs: "set (placeholder_refs (due t s')) \<subseteq> set (placeholder_refs (map snd (pending s)))"
    using due_subset [of t s'] by (simp only: p placeholder_refs_mono)
  have later_refs: "set (placeholder_refs later) \<subseteq> set (placeholder_refs (due t s'))"
    by (rule placeholder_refs_mono) (auto simp add: split)
  have own: "ref pressed_switch \<in> set (placeholder_refs (due t s'))"
    by (auto simp add: placeholder_refs_set split)
  have n0: "next_ref s \<le> next_ref ?u0"
    using fold_fire_next_ref [of s' before] by (simp add: nr)
  have bricks: "set (new_bricks (next_ref ?u0) positions) \<subseteq> set (things (world (advance t s')))"
  proof
    fix b assume b: "b \<in> set (new_bricks (next_ref ?u0) positions)"
    then have big: "next_ref s \<le> ref b"
      using n0 new_bricks_ref [of b "next_ref ?u0" positions] by simp
    have nop: "ref b \<notin> set (placeholder_refs (due t s'))"
    proof
      assume "ref b \<in> set (placeholder_refs (due t s'))"
      with refs assms(4) have "ref b < next_ref s" by blast
      with big show False by simp
    qed
    with own have "ref b \<noteq> ref pressed_switch" by metis
    with b have "b \<in> set (things (world ?u1))" by (simp add: unpress_switch_things)
    moreover from nop later_refs have "ref b \<notin> set (placeholder_refs later)" by blast
    ultimately show "b \<in> set (things (world (advance t s')))"
      unfolding w by (rule fold_fire_keeps)
  qed
  have switch: "place (block\<lparr>switch_flag := False\<rparr>) x y \<in> set (things (world (advance t s')))"
  proof -
    have "place (block\<lparr>switch_flag := False\<rparr>) x y \<in> set (things (world ?u1))"
      by (simp add: unpress_switch_things)
    moreover have "ref (place (block\<lparr>switch_flag := False\<rparr>) x y) \<notin> set (placeholder_refs later)"
      using assms(5) refs later_refs by (auto simp add: place_def)
    ultimately show ?thesis unfolding w by (rule fold_fire_keeps)
  qed
  have frame: "u \<in> set (things (world (advance t s')))"
    if "u \<in> set (things (world s'))" "ref u \<notin> set (placeholder_refs (due t s'))" for u
    using that by (simp add: advance_world fold_fire_keeps)
  have gone: "\<forall>tm \<in> set (pending (advance t s')). t < fst tm"
    by (simp add: advance_pending)
  have pos: "map get_position (new_bricks (next_ref ?u0) positions) = positions"
    by (rule new_bricks_positions)
  have ids: "\<forall>b \<in> set (new_bricks (next_ref ?u0) positions). get_id b = ''brick''"
    by (simp add: new_bricks_id)
  from r have "world s' = add_player (load_world e new_level) (player s) (x_start s) (y_start s)"
    by simp
  moreover from split w have "\<exists>before later. due t s' = before @ ?cb # later
      \<and> world (advance t s') = world (fold fire later (fire ?cb (fold fire before s')))"
    by blast
  moreover from n0 bricks pos ids have "\<exists>n \<ge> next_ref s.
      set (new_bricks n positions) \<subseteq> set (things (world (advance t s')))
      \<and> map get_position (new_bricks n positions) = positions
      \<and> (\<forall>b \<in> set (new_bricks n positions). get_id b = ''brick'')"
    by blast
  moreover have "\<forall>u. things (world (fire ?cb u))
      = filter (\<lambda>v. ref v \<noteq> ref pressed_switch)
          (things (world u) @ new_bricks (next_ref u) positions)
        @ [place (block\<lparr>switch_flag := False\<rparr>) x y]"
    by (simp add: unpress_switch_things)
  ultimately show ?thesis using switch frame gone by blast
qed

text \<open>The definitions that evaluate a run on the example level.\<close>

lemmas run_eval = handle_player_collide_item_def handle_player_collide_mob_def
  set_invincibility_def remove_invincibility_def after_def advance_def due_def
  TIMING_invincibility_def remove_item_def remove_mob_def remove_thing_def change_score_def
  is_dead_def Let_def

theorem stale_switch_timer_witness:
  "things (world (advance 1500 (reset_world demo_env ''level2.txt'' demo_star_pressed)))
     = [place (Block 100 ''cube'') 0 160, place (player_thing demo_player) 0 0,
        place (Block 11 ''brick'') 176 160, place (Switch 1) 160 160]
   \<and> pending (advance 1500 (reset_world demo_env ''level2.txt'' demo_star_pressed))
     = [(10000, Remove_invincibility)]
   \<and> place (Switch 1) 160 160
       \<in> set (things (world (advance 20000 (reset_world demo_env ''level2.txt'' demo_star_pressed))))"
proof -
  let ?cb = "Unpress_switch ((place (Switch 1) 160 160)\<lparr>switch_flag := True\<rparr>) 160 160
                    (place (Switch_Pressed 10) 160 160) [(176, 160)]"
  let ?r = "reset_world demo_env ''level2.txt'' demo_star_pressed"
  have p: "pending demo_star_pressed = [(10000, Remove_invincibility), (1000, ?cb)]"
    by (simp add: demo_star_pressed_def demo_star1_def press_eval run_eval demo_defs)
  have n11: "next_ref demo_star_pressed = 11"
    by (simp add: demo_star_pressed_def demo_star1_def press_eval run_eval demo_defs)
  have h1: "(1000, ?cb) \<in> set (pending demo_star_pressed)" by (simp add: p)
  have h2: "(1000::nat) \<le> 20000" by simp
  have h3: "''level2.txt'' \<noteq> ''END''" by simp
  have h4: "\<forall>r \<in> set (placeholder_refs (map snd (pending demo_star_pressed))).
      r < next_ref demo_star_pressed"
    by (simp add: p n11 placeholder_refs_def place_def Switch_Pressed_def)
  have h5: "ref ((place (Switch 1) 160 160)\<lparr>switch_flag := True\<rparr>)
      \<notin> set (placeholder_refs (map snd (pending demo_star_pressed)))"
    by (simp add: p placeholder_refs_def place_def Switch_Pressed_def Switch_def)
  from stale_switch_timer [OF h1 h2 h3 h4 h5 refl, of demo_env]
  have late: "place (((place (Switch 1) 160 160)\<lparr>switch_flag := True\<rparr>)\<lparr>switch_flag := False\<rparr>) 160 160
       \<in> set (things (world (advance 20000 ?r)))"
    by blast
  have pr: "pending ?r = [(10000, Remove_invincibility), (1000, ?cb)]"
    by (simp add: reset_world_def p)
  have wr: "things (world ?r) = [place (Block 100 ''cube'') 0 160, place (player_thing demo_player) 0 0]"
    by (simp add: reset_world_def demo_star_pressed_def demo_star1_def press_eval run_eval
        demo_defs add_player_def)
  have nr: "next_ref ?r = 11"
    by (simp add: reset_world_def n11)
  have a: "advance 1500 ?r = fire ?cb (?r\<lparr>pending := [(10000, Remove_invincibility)], now := max (now ?r) 1500\<rparr>)"
    by (simp add: advance_def due_def pr)
  have "things (world (advance 1500 ?r))
     = [place (Block 100 ''cube'') 0 160, place (player_thing demo_player) 0 0,
        place (Block 11 ''brick'') 176 160, place (Switch 1) 160 160]"
    by (simp add: a unpress_switch_things wr nr) (simp add: demo_defs)
  moreover have "pending (advance 1500 ?r) = [(10000, Remove_invincibility)]"
    by (simp add: advance_pending pr)
  moreover from late have "place (Switch 1) 160 160 \<in> set (things (world (advance 20000 ?r)))"
    by (simp add: place_def Switch_def)
  ultimately show ?thesis by simp
qed

section \<open>Invincibility\<close>

subsection \<open>What the handlers leave alone\<close>













lemma step_tick: "step e (Tick t) s = Inr s' \<longleftrightarrow> s' = advance t s"
  by auto







subsection \<open>The flag along a run\<close>




lemma fired_Cons:
  "step e ev s = Inr s' \<Longrightarrow>
     fired e (ev # evs) s = (case ev of Tick t \<Rightarrow> due t s | _ \<Rightarrow> []) @ fired e evs s'"
  by simp







end
